theory Spec2Isabelle
  imports Main
begin

section \<open>The Ceph receive adapter (pkg/adapter/adapter.go)\<close>

text \<open>
  The adapter receives Ceph bucket notifications over HTTP, turns every record of a
  batch into a CloudEvent and sends it to a sink. The embedding below follows
  \<^verbatim>\<open>postHandler\<close>, \<^verbatim>\<open>postMessage\<close> and \<^verbatim>\<open>sendCloudEvent\<close> line by line.
  What these functions call outside the repository is either a parameter gathered in
  the record \<open>env\<close> (the clock, \<^verbatim>\<open>time.Parse\<close>, \<^verbatim>\<open>strings.TrimSpace\<close>, \<^verbatim>\<open>net/url\<close>,
  \<^verbatim>\<open>encoding/json\<close>, the sink behind the CloudEvents client), or a definition that
  follows the library (the setters of a CloudEvent, \<^verbatim>\<open>http.Error\<close>), or an effect
  written into the explicit state \<open>world\<close> (the log, the calls of the client, the
  readings of the clock).
\<close>

subsection \<open>Errors\<close>

text \<open>
  A Go \<^verbatim>\<open>error\<close> is a value with a text. \<open>errorString\<close> is an error made outside the
  adapter (by the JSON decoder, the body reader, the time parser, the sink);
  \<open>wrapError p e\<close> is \<^verbatim>\<open>fmt.Errorf(p + "%w", e)\<close>. A function returning \<^verbatim>\<open>error\<close>
  returns \<open>err option\<close>, \<open>None\<close> being \<^verbatim>\<open>nil\<close>.
\<close>

datatype err = errorString string | wrapError string err

fun err_Error :: "err \<Rightarrow> string" where
  "err_Error (errorString s) = s"
| "err_Error (wrapError p e) = p @ err_Error e"

definition Errorf_w :: "string \<Rightarrow> err \<Rightarrow> err" where
  "Errorf_w p e = wrapError p e"

subsection \<open>Bucket notifications\<close>

text \<open>
  Modelled from the spec: the types \<^verbatim>\<open>ceph.BucketNotifications\<close> and
  \<^verbatim>\<open>ceph.BucketNotification\<close> of pkg/apis/bindings/v1alpha1 are not among the sources.
  The fields are the ones \<^verbatim>\<open>postMessage\<close> reads, under the names it reads them by; the
  specification lists the same fields (eventTime, eventName, eventSource, awsRegion,
  s3.bucket.name, s3.object.key, responseElements.x-amz-request-id,
  responseElements.x-amz-id-2), all of them strings.
\<close>

record bucket =
  Name :: string

record object =
  Key :: string

record s3 =
  Bucket :: bucket
  Object :: object

record responseElements =
  XAmzRequestID :: string
  XAmzID2 :: string

record BucketNotification =
  EventTime :: string
  EventName :: string
  EventSource :: string
  AwsRegion :: string
  S3 :: s3
  ResponseElements :: responseElements

record BucketNotifications =
  Records :: "BucketNotification list"

subsection \<open>Events, contexts, the log\<close>

text \<open>
  A point in time is a number of nanoseconds since the Unix epoch; \<open>zero_time\<close> is the
  zero value of \<^verbatim>\<open>time.Time\<close>, the first instant of the year 1. An event holds the
  attributes the adapter sets, as the getters of the library return them: an attribute
  that is not set reads as the empty string, a time that is not set as \<open>None\<close>.
\<close>

type_synonym time = int

definition zero_time :: time where
  "zero_time = - 62135596800000000000"

record event =
  SpecVersion :: string
  ID :: string
  Source :: string
  Type :: string
  Subject :: string
  Time :: "time option"
  DataContentType :: string
  Data :: string

text \<open>
  The context handed to the client is \<^verbatim>\<open>context.Background()\<close> (\<open>None\<close>) or carries a
  metric tag. \<open>MetricTag namespace name resourceGroup\<close> lists the fields in the order
  \<^verbatim>\<open>postMessage\<close> fills them.
\<close>

datatype MetricTag = MetricTag string string string

type_synonym "context" = "MetricTag option"

definition Background :: "context" where
  "Background = None"

definition ContextWithMetricTag :: "context \<Rightarrow> MetricTag \<Rightarrow> context" where
  "ContextWithMetricTag ctx tag = Some tag"

definition resourceGroup :: string where
  "resourceGroup = ''cephsources.sources.knative.dev''"

text \<open>
  The log keeps every call to the logger: its level, its format string and its
  arguments, unformatted.
\<close>

datatype level = DebugLevel | InfoLevel | ErrorLevel

datatype log_arg =
    S string
  | D nat
  | V BucketNotification
  | ZapError "err option"
  | ZapString string string

type_synonym log_entry = "level \<times> string \<times> log_arg list"

subsection \<open>The environment and the state\<close>

text \<open>
  \<open>sent\<close> lists the calls \<^verbatim>\<open>ca.client.Send(ctx, event)\<close> made so far, oldest first;
  \<open>clock\<close> counts the readings of \<^verbatim>\<open>time.Now()\<close>.
\<close>

record world =
  sent :: "(context \<times> event) list"
  log :: "log_entry list"
  clock :: nat

text \<open>
  \<^item> \<open>Parse\<close> is \<^verbatim>\<open>time.Parse(time.RFC3339, _)\<close>.
  \<^item> \<open>WallClock k\<close> is what the \<open>k\<close>-th reading of \<^verbatim>\<open>time.Now()\<close> shows, in nanoseconds
    since the Unix epoch: the wall clock never shows an instant before the epoch.
  \<^item> \<open>TrimSpace\<close> is \<^verbatim>\<open>strings.TrimSpace\<close>.
  \<^item> \<open>url_Parse u\<close> is \<open>None\<close> when \<^verbatim>\<open>url.Parse(u)\<close> fails, and otherwise what
    \<^verbatim>\<open>String()\<close> prints of the URL parsed.
  \<^item> \<open>Encode\<close> is the JSON text \<^verbatim>\<open>json.Marshal\<close> gives of a record. It is total:
    a \<^verbatim>\<open>BucketNotification\<close> is made of strings, numbers and lists of these, which
    \<^verbatim>\<open>json.Marshal\<close> never refuses.
  \<^item> \<open>Unmarshal\<close> is \<^verbatim>\<open>json.Unmarshal\<close> into a \<^verbatim>\<open>ceph.BucketNotifications\<close>.
  \<^item> \<open>Send h ctx e\<close> is the result of the client when called with \<open>ctx\<close> and \<open>e\<close> after
    the calls \<open>h\<close>.
  \<^item> \<open>ResultIsACK\<close> tells which results other than \<^verbatim>\<open>nil\<close> the CloudEvents library
    counts as an acknowledgement.
\<close>

record env =
  Parse :: "string \<Rightarrow> err + time"
  WallClock :: "nat \<Rightarrow> nat"
  TrimSpace :: "string \<Rightarrow> string"
  url_Parse :: "string \<Rightarrow> string option"
  Encode :: "BucketNotification \<Rightarrow> string"
  Unmarshal :: "string \<Rightarrow> err + BucketNotifications"
  Send :: "(context \<times> event) list \<Rightarrow> context \<Rightarrow> event \<Rightarrow> err option"
  ResultIsACK :: "err \<Rightarrow> bool"

definition Now :: "env \<Rightarrow> nat \<Rightarrow> time" where
  "Now env k = int (WallClock env k)"

definition IsACK :: "env \<Rightarrow> err option \<Rightarrow> bool" where
  "IsACK env result = (case result of None \<Rightarrow> True | Some e \<Rightarrow> ResultIsACK env e)"

definition logf :: "level \<Rightarrow> string \<Rightarrow> log_arg list \<Rightarrow> world \<Rightarrow> world" where
  "logf l fmt args s = s\<lparr>log := log s @ [(l, fmt, args)]\<rparr>"

definition Debugf :: "string \<Rightarrow> log_arg list \<Rightarrow> world \<Rightarrow> world" where
  "Debugf = logf DebugLevel"

definition Infof :: "string \<Rightarrow> log_arg list \<Rightarrow> world \<Rightarrow> world" where
  "Infof = logf InfoLevel"

definition Errorw :: "string \<Rightarrow> log_arg list \<Rightarrow> world \<Rightarrow> world" where
  "Errorw = logf ErrorLevel"

definition time_Now :: "env \<Rightarrow> world \<Rightarrow> time \<times> world" where
  "time_Now env s = (Now env (clock s), s\<lparr>clock := Suc (clock s)\<rparr>)"

definition client_Send :: "env \<Rightarrow> context \<Rightarrow> event \<Rightarrow> world \<Rightarrow> err option \<times> world" where
  "client_Send env ctx e s = (Send env (sent s) ctx e, s\<lparr>sent := sent s @ [(ctx, e)]\<rparr>)"

subsection \<open>The setters of a CloudEvent\<close>

text \<open>
  \<open>NewEvent\<close> is the empty event of version 1.0. The setters are those of the
  CloudEvents library for that version, and they do not simply store what they are
  given:
  \<^item> \<^verbatim>\<open>SetID\<close> trims white space and refuses the empty string: the id stays as it was;
  \<^item> \<^verbatim>\<open>SetSource\<close> refuses the empty string and what \<^verbatim>\<open>url.Parse\<close> refuses, and the
    source then stays as it was; otherwise the source is the URL parsed, which reads
    as \<^verbatim>\<open>String()\<close> prints it;
  \<^item> \<^verbatim>\<open>SetType\<close> trims white space;
  \<^item> \<^verbatim>\<open>SetSubject\<close> and \<^verbatim>\<open>SetDataContentType\<close> trim white space, and unset the
    attribute when nothing remains;
  \<^item> \<^verbatim>\<open>SetTime\<close> unsets the time when it is given the zero time;
  \<^item> \<^verbatim>\<open>SetData\<close> sets the content type and stores the encoding of the record. Its
    result is an error when the encoder fails, which the JSON encoder does not do on a
    record: the result is always the event.
  The note of a refusal that the library leaves on the event is not part of the model.
\<close>

definition NewEvent :: event where
  "NewEvent = \<lparr>SpecVersion = ''1.0'', ID = [], Source = [], Type = [], Subject = [],
     Time = None, DataContentType = [], Data = []\<rparr>"

definition SetID :: "env \<Rightarrow> string \<Rightarrow> event \<Rightarrow> event" where
  "SetID env v e = (let id = TrimSpace env v in if id = [] then e else e\<lparr>ID := id\<rparr>)"

definition ParseURIRef :: "env \<Rightarrow> string \<Rightarrow> string option" where
  "ParseURIRef env u = (if u = [] then None else url_Parse env u)"

definition SetSource :: "env \<Rightarrow> string \<Rightarrow> event \<Rightarrow> event" where
  "SetSource env u e = (case ParseURIRef env u of None \<Rightarrow> e | Some pu \<Rightarrow> e\<lparr>Source := pu\<rparr>)"

definition SetType :: "env \<Rightarrow> string \<Rightarrow> event \<Rightarrow> event" where
  "SetType env t e = e\<lparr>Type := TrimSpace env t\<rparr>"

definition SetSubject :: "env \<Rightarrow> string \<Rightarrow> event \<Rightarrow> event" where
  "SetSubject env v e = e\<lparr>Subject := TrimSpace env v\<rparr>"

definition IsZero :: "time \<Rightarrow> bool" where
  "IsZero t \<longleftrightarrow> t = zero_time"

definition SetTime :: "time \<Rightarrow> event \<Rightarrow> event" where
  "SetTime t e = (if IsZero t then e\<lparr>Time := None\<rparr> else e\<lparr>Time := Some t\<rparr>)"

definition ApplicationJSON :: string where
  "ApplicationJSON = ''application/json''"

definition SetDataContentType :: "env \<Rightarrow> string \<Rightarrow> event \<Rightarrow> event" where
  "SetDataContentType env ct e = e\<lparr>DataContentType := TrimSpace env ct\<rparr>"

definition SetData :: "env \<Rightarrow> string \<Rightarrow> BucketNotification \<Rightarrow> event \<Rightarrow> err + event" where
  "SetData env contentType obj e =
     Inr ((SetDataContentType env contentType e)\<lparr>Data := Encode env obj\<rparr>)"

subsection \<open>HTTP\<close>

text \<open>
  Of a request the handler reads the method and the body; \<open>ReadAll\<close> is the result of
  \<^verbatim>\<open>ioutil.ReadAll(r.Body)\<close>. A response writer holds the headers, the status passed
  to \<^verbatim>\<open>WriteHeader\<close> (\<open>None\<close> while it was not called: the server then answers 200) and
  the bytes written. \<open>http_Error\<close> is \<^verbatim>\<open>http.Error\<close> of net/http.
\<close>

record request =
  Method :: string
  ReadAll :: "err + string"

record ResponseWriter =
  Header :: "string \<rightharpoonup> string list"
  Status :: "nat option"
  Written :: string

definition NewResponseWriter :: ResponseWriter where
  "NewResponseWriter = \<lparr>Header = Map.empty, Status = None, Written = []\<rparr>"

definition Header_Set :: "string \<Rightarrow> string \<Rightarrow> ResponseWriter \<Rightarrow> ResponseWriter" where
  "Header_Set k v w = w\<lparr>Header := (Header w)(k \<mapsto> [v])\<rparr>"

definition Header_Del :: "string \<Rightarrow> ResponseWriter \<Rightarrow> ResponseWriter" where
  "Header_Del k w = w\<lparr>Header := (Header w)(k := None)\<rparr>"

definition StatusBadRequest :: nat where
  "StatusBadRequest = 400"

definition StatusMethodNotAllowed :: nat where
  "StatusMethodNotAllowed = 405"

definition StatusOK :: nat where
  "StatusOK = 200"

definition http_Error :: "ResponseWriter \<Rightarrow> string \<Rightarrow> nat \<Rightarrow> ResponseWriter" where
  "http_Error w msg code =
     (let w1 = Header_Del ''Content-Length'' w;
          w2 = Header_Set ''Content-Type'' ''text/plain; charset=utf-8'' w1;
          w3 = Header_Set ''X-Content-Type-Options'' ''nosniff'' w2
      in w3\<lparr>Status := Some code, Written := Written w3 @ msg @ [CHR 0x0A]\<rparr>)"

definition status_code :: "ResponseWriter \<Rightarrow> nat" where
  "status_code w = (case Status w of None \<Rightarrow> StatusOK | Some c \<Rightarrow> c)"

subsection \<open>The adapter\<close>

text \<open>
  \<^verbatim>\<open>cephReceiveAdapter\<close>: the logger and the client are the log of the state and the
  \<open>Send\<close> of the environment.
\<close>

record cephReceiveAdapter =
  port :: string
  name :: string
  namespace :: string

text \<open>\<^verbatim>\<open>sendCloudEvent\<close>, lines 120 to 132.\<close>

definition sendCloudEvent ::
  "env \<Rightarrow> cephReceiveAdapter \<Rightarrow> context \<Rightarrow> event \<Rightarrow> world \<Rightarrow> err option \<times> world" where
  "sendCloudEvent env ca ctx ev s =
     (let source = Source ev;
          subject = Subject ev;
          s1 = Debugf ''sending cloudevent id: %s, source: %s, subject: %s''
                 [S (ID ev), S source, S subject] s;
          (result, s2) = client_Send env ctx ev s1
      in if \<not> IsACK env result then
           (result, Errorw ''failed to send cloudevent''
              [ZapError result, ZapString ''source'' source, ZapString ''subject'' subject,
               ZapString ''id'' (ID ev)] s2)
         else
           (None, Debugf ''cloudevent sent id: %s, source: %s, subject: %s''
              [S (ID ev), S source, S subject] s2))"

text \<open>\<^verbatim>\<open>postMessage\<close>, lines 91 to 117.\<close>

definition postMessage ::
  "env \<Rightarrow> cephReceiveAdapter \<Rightarrow> BucketNotification \<Rightarrow> world \<Rightarrow> err option \<times> world" where
  "postMessage env ca notification s =
     (let (eventTime, s1) =
            (case Parse env (EventTime notification) of
               Inr t \<Rightarrow> (t, s)
             | Inl err \<Rightarrow>
                 time_Now env
                   (Infof ''Failed to parse event timestamp, using local time. Error: %s''
                      [S (err_Error err)] s));
          ev0 = NewEvent;
          ev1 = SetID env (XAmzRequestID (ResponseElements notification)
                           @ XAmzID2 (ResponseElements notification)) ev0;
          ev2 = SetSource env (EventSource notification @ ''.'' @ AwsRegion notification
                               @ ''.'' @ Name (Bucket (S3 notification))) ev1;
          ev3 = SetType env (''com.amazonaws.'' @ EventName notification) ev2;
          ev4 = SetSubject env (Key (Object (S3 notification))) ev3;
          ev5 = SetTime eventTime ev4
      in case SetData env ApplicationJSON notification ev5 of
           Inl err \<Rightarrow> (Some (Errorf_w ''failed to marshal event data: '' err), s1)
         | Inr ev \<Rightarrow>
             (let ctx = Background;
                  metricTag = MetricTag (namespace ca) (name ca) resourceGroup;
                  ctx = ContextWithMetricTag ctx metricTag
              in sendCloudEvent env ca ctx ev s1))"

text \<open>
  The loop of \<^verbatim>\<open>postHandler\<close>, lines 159 to 165: a record whose \<^verbatim>\<open>postMessage\<close> returns
  an error ends the handler with \<^verbatim>\<open>http.Error\<close>.
\<close>

fun range_Records ::
  "env \<Rightarrow> cephReceiveAdapter \<Rightarrow> BucketNotification list \<Rightarrow> ResponseWriter \<Rightarrow> world
     \<Rightarrow> ResponseWriter \<times> world" where
  "range_Records env ca [] w s = (w, s)"
| "range_Records env ca (notification # rest) w s =
     (let s1 = Debugf ''Received Ceph bucket notification: %+v'' [V notification] s
      in case postMessage env ca notification s1 of
           (Some err, s2) \<Rightarrow> (http_Error w (err_Error err) StatusBadRequest, s2)
         | (None, s2) \<Rightarrow> range_Records env ca rest w s2)"

text \<open>\<^verbatim>\<open>postHandler\<close>, lines 135 to 166.\<close>

definition postHandler ::
  "env \<Rightarrow> cephReceiveAdapter \<Rightarrow> ResponseWriter \<Rightarrow> request \<Rightarrow> world
     \<Rightarrow> ResponseWriter \<times> world" where
  "postHandler env ca w0 r s =
     (let w = Header_Set ''Allow'' ''POST'' w0
      in if Method r \<noteq> ''POST'' then
           (http_Error w ''405 Method Not Allowed'' StatusBadRequest,
            Infof ''%s method not allowed'' [S (Method r)] s)
         else
           case ReadAll r of
             Inl err \<Rightarrow>
               (http_Error w (err_Error err) StatusBadRequest,
                Infof ''Error reading message body: %s'' [S (err_Error err)] s)
           | Inr body \<Rightarrow>
               (case Unmarshal env body of
                  Inl err \<Rightarrow>
                    (http_Error w (err_Error err) StatusBadRequest,
                     Infof ''Failed to parse JSON: %s'' [S (err_Error err)] s)
                | Inr notifications \<Rightarrow>
                    range_Records env ca (Records notifications) w
                      (Debugf ''%d events found in message''
                         [D (length (Records notifications))] s)))"

subsection \<open>Observations on a run\<close>

text \<open>
  The loop of \<^verbatim>\<open>postHandler\<close> once more, without the response writer: the error, if
  any, that ends the loop, and the state it leaves. \<open>range_Records_outcome\<close> below shows
  that \<open>range_Records\<close> is this outcome written into the response.
\<close>

fun range_outcome ::
  "env \<Rightarrow> cephReceiveAdapter \<Rightarrow> BucketNotification list \<Rightarrow> world \<Rightarrow> err option \<times> world" where
  "range_outcome env ca [] s = (None, s)"
| "range_outcome env ca (notification # rest) s =
     (let s1 = Debugf ''Received Ceph bucket notification: %+v'' [V notification] s
      in case postMessage env ca notification s1 of
           (Some err, s2) \<Rightarrow> (Some err, s2)
         | (None, s2) \<Rightarrow> range_outcome env ca rest s2)"

text \<open>The calls of the client made between the state \<open>s\<close> and the later state \<open>s'\<close>.\<close>

definition calls_since :: "world \<Rightarrow> world \<Rightarrow> (context \<times> event) list" where
  "calls_since s s' = drop (length (sent s)) (sent s')"

text \<open>
  The records handed to \<^verbatim>\<open>postMessage\<close> so far: line 160 logs each of them just before
  line 161 makes the call, and nothing else logs a record.
\<close>

fun received_of :: "log_entry \<Rightarrow> BucketNotification list" where
  "received_of (l, fmt, [V n]) =
     (if l = DebugLevel \<and> fmt = ''Received Ceph bucket notification: %+v'' then [n] else [])"
| "received_of _ = []"

definition received :: "world \<Rightarrow> BucketNotification list" where
  "received s = concat (map received_of (log s))"

subsection \<open>What a batch asks of the sink\<close>

text \<open>
  These definitions do not run the adapter. \<open>envelope env n k\<close> is the event that
  stands for the record \<open>n\<close> when the clock has been read \<open>k\<close> times before: the
  attributes derived from the record as the setters keep them, the parsed time or else
  the reading of the clock, the record as payload. \<open>clock_after env ns k\<close> counts the
  readings after the records \<open>ns\<close>: one more for each timestamp that does not parse.
  \<open>expected_calls env ca ns k\<close> lists, in the order of the batch, one call of the
  client for each record of \<open>ns\<close>, and \<open>all_acked env h cs\<close> says that the sink, after
  the calls \<open>h\<close>, acknowledges each of the calls \<open>cs\<close> in turn.
\<close>

definition envelope :: "env \<Rightarrow> BucketNotification \<Rightarrow> nat \<Rightarrow> event" where
  "envelope env n k =
     \<lparr>SpecVersion = ''1.0'',
      ID = TrimSpace env (XAmzRequestID (ResponseElements n) @ XAmzID2 (ResponseElements n)),
      Source =
        (case url_Parse env (EventSource n @ ''.'' @ AwsRegion n @ ''.'' @ Name (Bucket (S3 n))) of
           None \<Rightarrow> []
         | Some pu \<Rightarrow> pu),
      Type = TrimSpace env (''com.amazonaws.'' @ EventName n),
      Subject = TrimSpace env (Key (Object (S3 n))),
      Time =
        (case Parse env (EventTime n) of
           Inr t \<Rightarrow> if t = zero_time then None else Some t
         | Inl _ \<Rightarrow> Some (Now env k)),
      DataContentType = TrimSpace env ''application/json'',
      Data = Encode env n\<rparr>"

definition tag_of :: "cephReceiveAdapter \<Rightarrow> context" where
  "tag_of ca = Some (MetricTag (namespace ca) (name ca) resourceGroup)"

fun clock_after :: "env \<Rightarrow> BucketNotification list \<Rightarrow> nat \<Rightarrow> nat" where
  "clock_after env [] k = k"
| "clock_after env (n # ns) k =
     clock_after env ns (case Parse env (EventTime n) of Inl _ \<Rightarrow> Suc k | Inr _ \<Rightarrow> k)"

fun expected_calls ::
  "env \<Rightarrow> cephReceiveAdapter \<Rightarrow> BucketNotification list \<Rightarrow> nat \<Rightarrow> (context \<times> event) list" where
  "expected_calls env ca [] k = []"
| "expected_calls env ca (n # ns) k =
     (tag_of ca, envelope env n k) # expected_calls env ca ns (clock_after env [n] k)"

fun all_acked :: "env \<Rightarrow> (context \<times> event) list \<Rightarrow> (context \<times> event) list \<Rightarrow> bool" where
  "all_acked env h [] = True"
| "all_acked env h ((ctx, ev) # cs) =
     (IsACK env (Send env h ctx ev) \<and> all_acked env (h @ [(ctx, ev)]) cs)"

subsection \<open>A concrete adapter, environment and records\<close>

text \<open>
  The record of the specification's scenario, and variants of it: one whose timestamp
  is not RFC 3339, one without correlation identifiers, one whose only correlation
  identifier is a space, one whose object key begins and ends with a space, and one
  the example sink rejects.
\<close>

definition example_record :: BucketNotification where
  "example_record =
     \<lparr>EventTime = ''2021-01-01T00:00:00Z'', EventName = ''ObjectCreated:Put'',
      EventSource = ''ceph:s3'', AwsRegion = ''us-east-1'',
      S3 = \<lparr>Bucket = \<lparr>Name = ''mybucket''\<rparr>, Object = \<lparr>Key = ''file.txt''\<rparr>\<rparr>,
      ResponseElements = \<lparr>XAmzRequestID = ''abc'', XAmzID2 = ''123''\<rparr>\<rparr>"

definition record_bad_time :: BucketNotification where
  "record_bad_time = example_record\<lparr>EventTime := ''yesterday''\<rparr>"

definition record_no_ids :: BucketNotification where
  "record_no_ids = example_record\<lparr>ResponseElements := \<lparr>XAmzRequestID = [], XAmzID2 = []\<rparr>\<rparr>"

definition record_blank_ids :: BucketNotification where
  "record_blank_ids = example_record\<lparr>ResponseElements := \<lparr>XAmzRequestID = '' '', XAmzID2 = []\<rparr>\<rparr>"

definition record_padded_key :: BucketNotification where
  "record_padded_key =
     example_record\<lparr>S3 := \<lparr>Bucket = \<lparr>Name = ''mybucket''\<rparr>, Object = \<lparr>Key = '' file.txt ''\<rparr>\<rparr>\<rparr>"

definition record_rejected :: BucketNotification where
  "record_rejected =
     example_record\<lparr>S3 := \<lparr>Bucket = \<lparr>Name = ''mybucket''\<rparr>, Object = \<lparr>Key = ''rejected.txt''\<rparr>\<rparr>\<rparr>"

text \<open>
  The white space of ASCII: tab, line feed, vertical tab, form feed, carriage return
  and space. On a string of ASCII characters \<open>trim_ascii\<close> is \<^verbatim>\<open>strings.TrimSpace\<close>.
\<close>

definition asciiSpace :: "char \<Rightarrow> bool" where
  "asciiSpace c \<longleftrightarrow> c \<in> {CHR 0x09, CHR 0x0A, CHR 0x0B, CHR 0x0C, CHR 0x0D, CHR 0x20}"

definition trim_ascii :: "string \<Rightarrow> string" where
  "trim_ascii s = rev (dropWhile asciiSpace (rev (dropWhile asciiSpace s)))"

text \<open>
  The example environment. Its records are ASCII, and the one source they have,
  \<^verbatim>\<open>ceph:s3.us-east-1.mybucket\<close>, parses as a URL of scheme \<^verbatim>\<open>ceph\<close> that prints back as
  it was. The encoder, which stands for JSON, is total. The decoder knows four
  bodies. The sink rejects the events whose subject is \<^verbatim>\<open>rejected.txt\<close> and
  acknowledges the others with \<^verbatim>\<open>nil\<close>.
\<close>

definition example_env :: env where
  "example_env =
     \<lparr>Parse = (\<lambda>t. if t = ''2021-01-01T00:00:00Z'' then Inr 1609459200000000000
                   else Inl (errorString ''cannot parse as RFC3339'')),
      WallClock = (\<lambda>k. 1700000000000000000 + k),
      TrimSpace = trim_ascii,
      url_Parse = (\<lambda>u. if u = ''ceph:s3.us-east-1.mybucket''
                        then Some ''ceph:s3.us-east-1.mybucket'' else None),
      Encode = (\<lambda>n. ''{'' @ EventName n @ '' '' @ Key (Object (S3 n)) @ ''}''),
      Unmarshal = (\<lambda>b.
         if b = ''{Records:[]}'' then Inr \<lparr>Records = []\<rparr>
         else if b = ''{Records:[a]}'' then Inr \<lparr>Records = [example_record]\<rparr>
         else if b = ''{Records:[a,t]}'' then Inr \<lparr>Records = [example_record, record_bad_time]\<rparr>
         else if b = ''{Records:[a,r,a]}''
           then Inr \<lparr>Records = [example_record, record_rejected, example_record]\<rparr>
         else Inl (errorString ''invalid character'')),
      Send = (\<lambda>h ctx ev. if Subject ev = ''rejected.txt'' then Some (errorString ''NACK'')
                          else None),
      ResultIsACK = (\<lambda>e. False)\<rparr>"

definition example_adapter :: cephReceiveAdapter where
  "example_adapter = \<lparr>port = ''8080'', name = ''ceph-source'', namespace = ''default''\<rparr>"

definition empty_world :: world where
  "empty_world = \<lparr>sent = [], log = [], clock = 0\<rparr>"

definition post :: "string \<Rightarrow> request" where
  "post body = \<lparr>Method = ''POST'', ReadAll = Inr body\<rparr>"

section \<open>Properties\<close>

subsection \<open>What one call of postMessage does\<close>

lemmas setters = NewEvent_def SetID_def SetSource_def ParseURIRef_def SetType_def
  SetSubject_def SetTime_def IsZero_def SetData_def SetDataContentType_def ApplicationJSON_def

lemmas loggers = logf_def Debugf_def Infof_def Errorw_def

lemmas examples = example_env_def example_adapter_def empty_world_def example_record_def
  record_bad_time_def record_no_ids_def record_blank_ids_def record_padded_key_def record_rejected_def post_def
  trim_ascii_def asciiSpace_def Now_def

lemma Now_not_zero: "Now env k \<noteq> zero_time"
  by (simp add: Now_def zero_time_def)

lemma built_event:
  "SetData env ApplicationJSON n
     (SetTime t
       (SetSubject env (Key (Object (S3 n)))
         (SetType env (''com.amazonaws.'' @ EventName n)
           (SetSource env (EventSource n @ ''.'' @ AwsRegion n @ ''.'' @ Name (Bucket (S3 n)))
             (SetID env (XAmzRequestID (ResponseElements n) @ XAmzID2 (ResponseElements n))
               NewEvent)))))
   = Inr ((envelope env n k)\<lparr>Time := if t = zero_time then None else Some t\<rparr>)"
  by (simp add: setters envelope_def Let_def split: option.split)

lemmas built_event' = built_event[unfolded append_Cons append_Nil]

lemma envelope_Time_Inr:
  "Parse env (EventTime n) = Inr t \<Longrightarrow>
     (envelope env n k)\<lparr>Time := if t = zero_time then None else Some t\<rparr> = envelope env n k"
  by (simp add: envelope_def)

lemma envelope_Time_Inl:
  "Parse env (EventTime n) = Inl e \<Longrightarrow>
     (envelope env n k)\<lparr>Time := if Now env k = zero_time then None else Some (Now env k)\<rparr>
       = envelope env n k"
  by (simp add: envelope_def Now_not_zero)

text \<open>
  \<^verbatim>\<open>postMessage\<close> is \<^verbatim>\<open>sendCloudEvent\<close> on the envelope of the record, after the log line
  and the reading of the clock that a timestamp that does not parse costs.
\<close>

lemma postMessage_eq:
  "postMessage env ca n s =
     sendCloudEvent env ca (tag_of ca) (envelope env n (clock s))
       (case Parse env (EventTime n) of
          Inr t \<Rightarrow> s
        | Inl err \<Rightarrow>
            (Infof ''Failed to parse event timestamp, using local time. Error: %s''
               [S (err_Error err)] s)\<lparr>clock := Suc (clock s)\<rparr>)"
proof (cases "Parse env (EventTime n)")
  case (Inl err)
  show ?thesis
    unfolding postMessage_def Let_def
    by (simp add: Inl time_Now_def built_event'[of env n _ "clock s"] envelope_Time_Inl[OF Inl]
        Background_def ContextWithMetricTag_def tag_of_def loggers)
next
  case (Inr t)
  show ?thesis
    unfolding postMessage_def Let_def
    by (simp add: Inr built_event'[of env n _ "clock s"] envelope_Time_Inr[OF Inr]
        Background_def ContextWithMetricTag_def tag_of_def)
qed

lemma sendCloudEvent_sent:
  "sent (snd (sendCloudEvent env ca ctx ev s)) = sent s @ [(ctx, ev)]"
  by (simp add: sendCloudEvent_def client_Send_def loggers Let_def)

lemma sendCloudEvent_clock:
  "clock (snd (sendCloudEvent env ca ctx ev s)) = clock s"
  by (simp add: sendCloudEvent_def client_Send_def loggers Let_def)

lemma sendCloudEvent_result:
  "fst (sendCloudEvent env ca ctx ev s)
     = (let r = Send env (sent s) ctx ev in if IsACK env r then None else r)"
  by (simp add: sendCloudEvent_def client_Send_def loggers Let_def)

lemma sendCloudEvent_received:
  "received (snd (sendCloudEvent env ca ctx ev s)) = received s"
  by (simp add: sendCloudEvent_def client_Send_def loggers Let_def received_def)

lemma postMessage_sent:
  "sent (snd (postMessage env ca n s)) = sent s @ [(tag_of ca, envelope env n (clock s))]"
  by (simp add: postMessage_eq sendCloudEvent_sent loggers split: sum.split)

lemma postMessage_clock:
  "clock (snd (postMessage env ca n s)) = clock_after env [n] (clock s)"
  by (simp add: postMessage_eq sendCloudEvent_clock loggers split: sum.split)

lemma postMessage_result:
  "fst (postMessage env ca n s)
     = (let r = Send env (sent s) (tag_of ca) (envelope env n (clock s))
        in if IsACK env r then None else r)"
  by (simp add: postMessage_eq sendCloudEvent_result loggers split: sum.split)

lemma postMessage_None_iff:
  "fst (postMessage env ca n s) = None
     \<longleftrightarrow> IsACK env (Send env (sent s) (tag_of ca) (envelope env n (clock s)))"
proof -
  let ?r = "Send env (sent s) (tag_of ca) (envelope env n (clock s))"
  have "?r \<noteq> None" if "\<not> IsACK env ?r"
    using that by (auto simp: IsACK_def split: option.splits)
  then show ?thesis
    by (auto simp: postMessage_result Let_def)
qed

lemma received_postMessage: "received (snd (postMessage env ca n s)) = received s"
proof -
  have "received ((Infof fmt [S x] s)\<lparr>clock := k\<rparr>) = received s" for fmt x k
    by (simp add: received_def loggers)
  then show ?thesis
    by (simp add: postMessage_eq sendCloudEvent_received split: sum.split)
qed

lemma received_Debugf_Received:
  "received (Debugf ''Received Ceph bucket notification: %+v'' [V n] s) = received s @ [n]"
  by (simp add: received_def loggers)

lemma sent_Debugf [simp]: "sent (Debugf fmt args s) = sent s"
  by (simp add: loggers)

lemma clock_Debugf [simp]: "clock (Debugf fmt args s) = clock s"
  by (simp add: loggers)

lemma trim_examples:
  "trim_ascii ''abc123'' = ''abc123''"
  "trim_ascii ''com.amazonaws.ObjectCreated:Put'' = ''com.amazonaws.ObjectCreated:Put''"
  "trim_ascii ''file.txt'' = ''file.txt''"
  "trim_ascii '' file.txt '' = ''file.txt''"
  "trim_ascii ''rejected.txt'' = ''rejected.txt''"
  "trim_ascii [] = []"
  "trim_ascii '' '' = []"
  by (simp_all add: trim_ascii_def asciiSpace_def)

subsection \<open>The attributes of the event\<close>

text \<open>
  Claim C1 says that the id, the type and the subject of the event are the values
  \<^verbatim>\<open>postMessage\<close> hands to the setters, and the source the dotted string. The setters
  trim white space: a record whose object key begins and ends with a space is sent
  with the subject \<^verbatim>\<open>file.txt\<close>, which is not its key.
\<close>

theorem C1_padded_key_counterexample:
  "Key (Object (S3 record_padded_key)) = '' file.txt ''
   \<and> map (Subject \<circ> snd)
       (sent (snd (postMessage example_env example_adapter record_padded_key empty_world)))
     = [''file.txt'']"
  by (simp add: postMessage_sent envelope_def trim_examples
      record_padded_key_def example_record_def example_env_def empty_world_def)

text \<open>
  Claim C1, amended. For every record \<^verbatim>\<open>postMessage\<close> calls the client once, with an
  event whose id is the record's \<^verbatim>\<open>x-amz-request-id\<close> followed by its \<^verbatim>\<open>x-amz-id-2\<close>,
  whose type is \<^verbatim>\<open>com.amazonaws.\<close> followed by the event name and whose subject is the
  object key, each with the white space at both ends removed, and whose source is the
  event source, the region and the bucket name joined by dots, as the URL parser prints
  that string back (empty when it does not parse). When trimming changes none of the
  three values and the dotted string prints back as it is, these are the values of the
  claim.
\<close>

theorem C1_envelope_fields_as_set:
  "\<exists>ctx ev. sent (snd (postMessage env ca n s)) = sent s @ [(ctx, ev)]
     \<and> ID ev = TrimSpace env (XAmzRequestID (ResponseElements n) @ XAmzID2 (ResponseElements n))
     \<and> Source ev =
         (case url_Parse env (EventSource n @ ''.'' @ AwsRegion n @ ''.'' @ Name (Bucket (S3 n))) of
            None \<Rightarrow> []
          | Some pu \<Rightarrow> pu)
     \<and> Type ev = TrimSpace env (''com.amazonaws.'' @ EventName n)
     \<and> Subject ev = TrimSpace env (Key (Object (S3 n)))
     \<and> (TrimSpace env (XAmzRequestID (ResponseElements n) @ XAmzID2 (ResponseElements n))
           = XAmzRequestID (ResponseElements n) @ XAmzID2 (ResponseElements n)
         \<and> url_Parse env (EventSource n @ ''.'' @ AwsRegion n @ ''.'' @ Name (Bucket (S3 n)))
           = Some (EventSource n @ ''.'' @ AwsRegion n @ ''.'' @ Name (Bucket (S3 n)))
         \<and> TrimSpace env (''com.amazonaws.'' @ EventName n) = ''com.amazonaws.'' @ EventName n
         \<and> TrimSpace env (Key (Object (S3 n))) = Key (Object (S3 n))
         \<longrightarrow> ID ev = XAmzRequestID (ResponseElements n) @ XAmzID2 (ResponseElements n)
           \<and> Source ev = EventSource n @ ''.'' @ AwsRegion n @ ''.'' @ Name (Bucket (S3 n))
           \<and> Type ev = ''com.amazonaws.'' @ EventName n
           \<and> Subject ev = Key (Object (S3 n)))"
proof (intro exI conjI)
  show "sent (snd (postMessage env ca n s)) = sent s @ [(tag_of ca, envelope env n (clock s))]"
    by (rule postMessage_sent)
qed (simp_all add: envelope_def)

text \<open>
  The record of the specification's scenario: id \<^verbatim>\<open>abc123\<close>, source
  \<^verbatim>\<open>ceph:s3.us-east-1.mybucket\<close>, subject \<^verbatim>\<open>file.txt\<close>.
\<close>

theorem C1_envelope_fields_as_set_witness:
  "TrimSpace example_env (XAmzRequestID (ResponseElements example_record)
       @ XAmzID2 (ResponseElements example_record)) = ''abc123''
   \<and> url_Parse example_env (EventSource example_record @ ''.'' @ AwsRegion example_record
       @ ''.'' @ Name (Bucket (S3 example_record))) = Some ''ceph:s3.us-east-1.mybucket''
   \<and> TrimSpace example_env (''com.amazonaws.'' @ EventName example_record)
       = ''com.amazonaws.ObjectCreated:Put''
   \<and> TrimSpace example_env (Key (Object (S3 example_record))) = ''file.txt''
   \<and> (\<exists>ctx ev. sent (snd (postMessage example_env example_adapter example_record empty_world))
                  = sent empty_world @ [(ctx, ev)]
         \<and> ID ev = ''abc123''
         \<and> Source ev = ''ceph:s3.us-east-1.mybucket''
         \<and> Type ev = ''com.amazonaws.ObjectCreated:Put''
         \<and> Subject ev = ''file.txt'')"
proof -
  have t: "TrimSpace example_env (XAmzRequestID (ResponseElements example_record)
             @ XAmzID2 (ResponseElements example_record)) = ''abc123''"
    "url_Parse example_env (EventSource example_record @ ''.'' @ AwsRegion example_record
       @ ''.'' @ Name (Bucket (S3 example_record))) = Some ''ceph:s3.us-east-1.mybucket''"
    "TrimSpace example_env (''com.amazonaws.'' @ EventName example_record)
       = ''com.amazonaws.ObjectCreated:Put''"
    "TrimSpace example_env (Key (Object (S3 example_record))) = ''file.txt''"
    by (simp_all add: example_record_def example_env_def trim_examples)
  from C1_envelope_fields_as_set[of example_env example_adapter example_record empty_world]
  obtain ctx ev
    where "sent (snd (postMessage example_env example_adapter example_record empty_world))
             = sent empty_world @ [(ctx, ev)]"
      and "ID ev = TrimSpace example_env (XAmzRequestID (ResponseElements example_record)
             @ XAmzID2 (ResponseElements example_record))"
      and "Source ev = (case url_Parse example_env (EventSource example_record @ ''.''
             @ AwsRegion example_record @ ''.'' @ Name (Bucket (S3 example_record))) of
               None \<Rightarrow> [] | Some pu \<Rightarrow> pu)"
      and "Type ev = TrimSpace example_env (''com.amazonaws.'' @ EventName example_record)"
      and "Subject ev = TrimSpace example_env (Key (Object (S3 example_record)))"
    by blast
  with t show ?thesis by auto
qed

text \<open>
  Claim C4. When the \<^verbatim>\<open>eventTime\<close> of a record does not parse, \<^verbatim>\<open>postMessage\<close> goes on
  with the reading of the clock in place of the parsed time: the event is handed to the
  client and carries that reading, and the error \<^verbatim>\<open>postMessage\<close> returns, if any, is the
  result of the client, never the parse error.
\<close>

theorem C4_unparsable_time_falls_back:
  assumes "Parse env (EventTime n) = Inl perr"
  shows "\<exists>ctx ev. sent (snd (postMessage env ca n s)) = sent s @ [(ctx, ev)]
           \<and> Time ev = Some (Now env (clock s))
           \<and> fst (postMessage env ca n s)
               = (if IsACK env (Send env (sent s) ctx ev) then None
                  else Send env (sent s) ctx ev)"
proof (intro exI conjI)
  show "sent (snd (postMessage env ca n s)) = sent s @ [(tag_of ca, envelope env n (clock s))]"
    by (rule postMessage_sent)
  show "Time (envelope env n (clock s)) = Some (Now env (clock s))"
    using assms by (simp add: envelope_def)
  show "fst (postMessage env ca n s)
          = (if IsACK env (Send env (sent s) (tag_of ca) (envelope env n (clock s))) then None
             else Send env (sent s) (tag_of ca) (envelope env n (clock s)))"
    by (simp add: postMessage_result Let_def)
qed

text \<open>A record dated \<^verbatim>\<open>yesterday\<close> is sent with the time the clock shows.\<close>

theorem C4_unparsable_time_falls_back_witness:
  "Parse example_env (EventTime record_bad_time) = Inl (errorString ''cannot parse as RFC3339'')
   \<and> Now example_env (clock empty_world) = 1700000000000000000
   \<and> (\<exists>ctx ev. sent (snd (postMessage example_env example_adapter record_bad_time empty_world))
                  = sent empty_world @ [(ctx, ev)]
         \<and> Time ev = Some (Now example_env (clock empty_world))
         \<and> fst (postMessage example_env example_adapter record_bad_time empty_world)
             = (if IsACK example_env (Send example_env (sent empty_world) ctx ev) then None
                else Send example_env (sent empty_world) ctx ev))"
proof -
  have h: "Parse example_env (EventTime record_bad_time)
             = Inl (errorString ''cannot parse as RFC3339'')"
    by (simp add: examples)
  have n: "Now example_env (clock empty_world) = 1700000000000000000"
    by (simp add: examples)
  show ?thesis
    using h n C4_unparsable_time_falls_back[OF h, of example_adapter empty_world]
    by simp
qed

subsection \<open>The identifier of the event\<close>

text \<open>
  Claim C8 says that the id of every event produced is non-empty. \<^verbatim>\<open>postMessage\<close>
  checks nothing, and \<^verbatim>\<open>SetID\<close> leaves the id empty when it refuses a value: a record
  in which both correlation identifiers are empty is handed to the client with the
  empty id.
\<close>

theorem C8_empty_id_counterexample:
  "map (ID \<circ> snd)
     (sent (snd (postMessage example_env example_adapter record_no_ids empty_world))) = [[]]"
  by (simp add: postMessage_sent envelope_def trim_examples
      record_no_ids_def example_record_def example_env_def empty_world_def)

text \<open>
  Claim C8, amended. For every record, the id of the event handed to the client is the
  concatenation of the two correlation identifiers with the white space at both ends
  removed; it is non-empty exactly when something remains of the concatenation.
\<close>

theorem C8_id_is_trimmed_concatenation:
  "\<exists>ctx ev. sent (snd (postMessage env ca n s)) = sent s @ [(ctx, ev)]
     \<and> ID ev = TrimSpace env (XAmzRequestID (ResponseElements n) @ XAmzID2 (ResponseElements n))
     \<and> (ID ev \<noteq> []
          \<longleftrightarrow> TrimSpace env (XAmzRequestID (ResponseElements n) @ XAmzID2 (ResponseElements n))
                \<noteq> [])"
proof (intro exI conjI)
  show "sent (snd (postMessage env ca n s)) = sent s @ [(tag_of ca, envelope env n (clock s))]"
    by (rule postMessage_sent)
qed (simp_all add: envelope_def)

text \<open>
  The record of the scenario has the id \<^verbatim>\<open>abc123\<close>; a record whose identifiers are a
  space and the empty string has the empty id.
\<close>

theorem C8_id_is_trimmed_concatenation_witness:
  "(\<exists>ctx ev. sent (snd (postMessage example_env example_adapter example_record empty_world))
                = sent empty_world @ [(ctx, ev)]
       \<and> ID ev = ''abc123'' \<and> ID ev \<noteq> [])
   \<and> (\<exists>ctx ev. sent (snd (postMessage example_env example_adapter record_blank_ids empty_world))
                = sent empty_world @ [(ctx, ev)]
       \<and> ID ev = [])"
  using C8_id_is_trimmed_concatenation[of example_env example_adapter example_record empty_world]
    C8_id_is_trimmed_concatenation[of example_env example_adapter record_blank_ids empty_world]
  by (simp add: example_record_def record_blank_ids_def example_env_def trim_examples)

subsection \<open>The loop and the response\<close>

lemma range_Records_outcome:
  "range_Records env ca ns w s =
     (case range_outcome env ca ns s of
        (None, s') \<Rightarrow> (w, s')
      | (Some e, s') \<Rightarrow> (http_Error w (err_Error e) StatusBadRequest, s'))"
  by (induction ns arbitrary: s) (auto split: prod.split option.split)

lemma Header_http_Error_Allow: "Header (http_Error w msg code) ''Allow'' = Header w ''Allow''"
  by (simp add: http_Error_def Header_Set_def Header_Del_def Let_def)

lemma Header_range_Records_Allow:
  "Header (fst (range_Records env ca ns w s)) ''Allow'' = Header w ''Allow''"
  by (simp add: range_Records_outcome Header_http_Error_Allow split: prod.split option.split)

lemma length_expected_calls: "length (expected_calls env ca ns k) = length ns"
  by (induction ns arbitrary: k) simp_all

lemma clock_after_append:
  "clock_after env (xs @ ys) k = clock_after env ys (clock_after env xs k)"
  by (induction xs arbitrary: k) simp_all

lemma expected_calls_append:
  "expected_calls env ca (xs @ ys) k
     = expected_calls env ca xs k @ expected_calls env ca ys (clock_after env xs k)"
  by (induction xs arbitrary: k) simp_all

lemma calls_since_eq: "sent s' = sent s @ cs \<Longrightarrow> calls_since s s' = cs"
  by (simp add: calls_since_def)

text \<open>One turn of the loop, in the two ways it can end.\<close>

lemma range_outcome_Cons:
  "range_outcome env ca (n # ns) s =
     (let s2 = snd (postMessage env ca n
                 (Debugf ''Received Ceph bucket notification: %+v'' [V n] s))
      in if IsACK env (Send env (sent s) (tag_of ca) (envelope env n (clock s)))
         then range_outcome env ca ns s2
         else (Send env (sent s) (tag_of ca) (envelope env n (clock s)), s2))"
proof -
  let ?s1 = "Debugf ''Received Ceph bucket notification: %+v'' [V n] s"
  let ?r = "Send env (sent s) (tag_of ca) (envelope env n (clock s))"
  obtain r s2 where pm: "postMessage env ca n ?s1 = (r, s2)"
    by (cases "postMessage env ca n ?s1")
  have res: "r = (if IsACK env ?r then None else ?r)"
    using postMessage_result[of env ca n ?s1] pm by (simp add: Let_def)
  have "?r \<noteq> None" if "\<not> IsACK env ?r"
    using that by (auto simp: IsACK_def split: option.splits)
  with res pm show ?thesis
    by (cases "IsACK env ?r") (auto simp: Let_def)
qed

lemma step_state:
  "sent (snd (postMessage env ca n (Debugf ''Received Ceph bucket notification: %+v'' [V n] s)))
     = sent s @ [(tag_of ca, envelope env n (clock s))]"
  "clock (snd (postMessage env ca n (Debugf ''Received Ceph bucket notification: %+v'' [V n] s)))
     = clock_after env [n] (clock s)"
  "received (snd (postMessage env ca n (Debugf ''Received Ceph bucket notification: %+v'' [V n] s)))
     = received s @ [n]"
  by (simp_all add: postMessage_sent postMessage_clock received_postMessage
      received_Debugf_Received del: clock_after.simps)

lemma range_outcome_acked:
  "all_acked env (sent s) (expected_calls env ca ns (clock s)) \<Longrightarrow>
     fst (range_outcome env ca ns s) = None
     \<and> sent (snd (range_outcome env ca ns s)) = sent s @ expected_calls env ca ns (clock s)
     \<and> clock (snd (range_outcome env ca ns s)) = clock_after env ns (clock s)
     \<and> received (snd (range_outcome env ca ns s)) = received s @ ns"
proof (induction ns arbitrary: s)
  case Nil
  show ?case by simp
next
  case (Cons n ns)
  let ?s2 = "snd (postMessage env ca n
               (Debugf ''Received Ceph bucket notification: %+v'' [V n] s))"
  from Cons.prems
  have ack: "IsACK env (Send env (sent s) (tag_of ca) (envelope env n (clock s)))"
    and rest: "all_acked env (sent ?s2) (expected_calls env ca ns (clock ?s2))"
    by (simp_all add: step_state del: clock_after.simps)
  from Cons.IH[OF rest] ack show ?case
    by (simp add: range_outcome_Cons step_state del: range_outcome.simps)
qed

lemma range_outcome_not_acked:
  "\<not> all_acked env (sent s) (expected_calls env ca ns (clock s)) \<Longrightarrow>
     fst (range_outcome env ca ns s) \<noteq> None"
proof (induction ns arbitrary: s)
  case Nil
  then show ?case by simp
next
  case (Cons n ns)
  let ?s2 = "snd (postMessage env ca n
               (Debugf ''Received Ceph bucket notification: %+v'' [V n] s))"
  let ?r = "Send env (sent s) (tag_of ca) (envelope env n (clock s))"
  show ?case
  proof (cases "IsACK env ?r")
    case True
    with Cons.prems
    have "\<not> all_acked env (sent ?s2) (expected_calls env ca ns (clock ?s2))"
      by (simp add: step_state del: clock_after.simps)
    from Cons.IH[OF this] True show ?thesis
      by (simp add: range_outcome_Cons del: range_outcome.simps)
  next
    case False
    then have "?r \<noteq> None" by (auto simp: IsACK_def split: option.splits)
    with False show ?thesis
      by (simp add: range_outcome_Cons Let_def del: range_outcome.simps)
  qed
qed

lemma range_outcome_None_iff:
  "fst (range_outcome env ca ns s) = None
     \<longleftrightarrow> all_acked env (sent s) (expected_calls env ca ns (clock s))"
  using range_outcome_acked[of env s ca ns] range_outcome_not_acked[of env s ca ns] by blast

lemma range_outcome_append_None:
  "fst (range_outcome env ca xs s) = None \<Longrightarrow>
     range_outcome env ca (xs @ ys) s = range_outcome env ca ys (snd (range_outcome env ca xs s))"
  by (induction xs arbitrary: s) (auto split: prod.splits option.splits)

lemma range_outcome_fail_at:
  assumes pre: "fst (range_outcome env ca pre s) = None"
    and n: "fst (range_outcome env ca (pre @ [n]) s) = Some e"
  shows "fst (range_outcome env ca (pre @ n # rest) s) = Some e"
    and "sent (snd (range_outcome env ca (pre @ n # rest) s))
           = sent s @ expected_calls env ca (pre @ [n]) (clock s)"
    and "received (snd (range_outcome env ca (pre @ n # rest) s)) = received s @ pre @ [n]"
    and "Send env (sent s @ expected_calls env ca pre (clock s)) (tag_of ca)
           (envelope env n (clock_after env pre (clock s))) = Some e"
proof -
  let ?s1 = "snd (range_outcome env ca pre s)"
  let ?s2 = "snd (postMessage env ca n
               (Debugf ''Received Ceph bucket notification: %+v'' [V n] ?s1))"
  let ?r = "Send env (sent ?s1) (tag_of ca) (envelope env n (clock ?s1))"
  from pre have acked: "all_acked env (sent s) (expected_calls env ca pre (clock s))"
    by (simp add: range_outcome_None_iff)
  note s1 = range_outcome_acked[OF acked]
  from n range_outcome_append_None[OF pre, of "[n]"]
  have one: "fst (range_outcome env ca [n] ?s1) = Some e" by simp
  have nack: "\<not> IsACK env ?r"
  proof
    assume "IsACK env ?r"
    then have "fst (range_outcome env ca [n] ?s1) = None"
      by (simp add: range_outcome_Cons del: range_outcome.simps(2))
    with one show False by simp
  qed
  with one have e: "?r = Some e"
    by (simp add: range_outcome_Cons Let_def del: range_outcome.simps(2))
  from nack e range_outcome_append_None[OF pre, of "n # rest"]
  have full: "range_outcome env ca (pre @ n # rest) s = (Some e, ?s2)"
    by (simp add: range_outcome_Cons Let_def del: range_outcome.simps(2))
  from full show "fst (range_outcome env ca (pre @ n # rest) s) = Some e" by simp
  from full s1 show "sent (snd (range_outcome env ca (pre @ n # rest) s))
           = sent s @ expected_calls env ca (pre @ [n]) (clock s)"
    by (simp add: step_state expected_calls_append del: clock_after.simps)
  from full s1 show "received (snd (range_outcome env ca (pre @ n # rest) s))
           = received s @ pre @ [n]"
    by (simp add: step_state)
  from e s1 show "Send env (sent s @ expected_calls env ca pre (clock s)) (tag_of ca)
           (envelope env n (clock_after env pre (clock s))) = Some e"
    by simp
qed

text \<open>What the log holds has no influence on the outcome.\<close>

lemma range_outcome_log_irrelevant:
  "sent s = sent t \<Longrightarrow> clock s = clock t \<Longrightarrow>
     fst (range_outcome env ca ns s) = fst (range_outcome env ca ns t)"
proof (induction ns arbitrary: s t)
  case Nil
  show ?case by simp
next
  case (Cons n ns)
  let ?s2 = "snd (postMessage env ca n
               (Debugf ''Received Ceph bucket notification: %+v'' [V n] s))"
  let ?t2 = "snd (postMessage env ca n
               (Debugf ''Received Ceph bucket notification: %+v'' [V n] t))"
  from Cons.prems have "sent ?s2 = sent ?t2" "clock ?s2 = clock ?t2"
    by (simp_all add: step_state del: clock_after.simps)
  from Cons.IH[OF this] Cons.prems show ?case
    by (simp add: range_outcome_Cons Let_def del: range_outcome.simps)
qed

lemma postHandler_range_outcome:
  assumes "Method r = ''POST''" and "ReadAll r = Inr body" and "Unmarshal env body = Inr nb"
  shows "postHandler env ca w0 r s =
     (case range_outcome env ca (Records nb)
             (Debugf ''%d events found in message'' [D (length (Records nb))] s) of
        (None, s') \<Rightarrow> (Header_Set ''Allow'' ''POST'' w0, s')
      | (Some e, s') \<Rightarrow>
          (http_Error (Header_Set ''Allow'' ''POST'' w0) (err_Error e) StatusBadRequest, s'))"
  using assms by (simp add: postHandler_def Let_def range_Records_outcome)

lemma response_None:
  "status_code (Header_Set ''Allow'' ''POST'' NewResponseWriter) = 200
   \<and> Written (Header_Set ''Allow'' ''POST'' NewResponseWriter) = []"
  by (simp add: status_code_def Header_Set_def NewResponseWriter_def StatusOK_def)

lemma response_Some:
  "status_code (http_Error (Header_Set ''Allow'' ''POST'' NewResponseWriter) msg StatusBadRequest)
     = 400
   \<and> Written (http_Error (Header_Set ''Allow'' ''POST'' NewResponseWriter) msg StatusBadRequest)
       = msg @ [CHR 0x0A]"
  by (simp add: status_code_def http_Error_def Header_Set_def Header_Del_def
      NewResponseWriter_def StatusBadRequest_def Let_def)

lemma found_log [simp]:
  "received (Debugf ''%d events found in message'' [D k] s) = received s"
  "calls_since (Debugf ''%d events found in message'' [D k] s) s' = calls_since s s'"
  by (simp_all add: loggers received_def calls_since_def)

subsection \<open>Requests that never reach the records\<close>

text \<open>
  Claim C9. Whatever the request and whatever happens to it, the response of
  \<^verbatim>\<open>postHandler\<close> carries the header \<^verbatim>\<open>Allow: POST\<close>: line 136 sets it before the
  request is looked at, and neither \<^verbatim>\<open>http.Error\<close> nor the loop touches it.
\<close>

theorem C9_allow_header_on_every_response:
  "Header (fst (postHandler env ca w0 r s)) ''Allow'' = Some [''POST'']"
proof -
  have "Header (Header_Set ''Allow'' ''POST'' w0) ''Allow'' = Some [''POST'']"
    by (simp add: Header_Set_def)
  then show ?thesis
    by (simp add: postHandler_def Let_def Header_http_Error_Allow Header_range_Records_Allow
        split: sum.split)
qed

text \<open>
  Claim C5 says that a request with another method than POST is answered with status
  405. For a GET request \<^verbatim>\<open>postHandler\<close> writes the text \<^verbatim>\<open>405 Method Not Allowed\<close> and
  the header \<^verbatim>\<open>Allow: POST\<close>, calls neither \<^verbatim>\<open>postMessage\<close> nor the client, but passes
  \<^verbatim>\<open>http.StatusBadRequest\<close> to \<^verbatim>\<open>http.Error\<close> (line 139): the status is 400.
\<close>

theorem C5_get_answered_with_status_400:
  "status_code (fst (postHandler env ca NewResponseWriter \<lparr>Method = ''GET'', ReadAll = b\<rparr> s))
     = 400
   \<and> status_code (fst (postHandler env ca NewResponseWriter \<lparr>Method = ''GET'', ReadAll = b\<rparr> s))
     \<noteq> StatusMethodNotAllowed
   \<and> Written (fst (postHandler env ca NewResponseWriter \<lparr>Method = ''GET'', ReadAll = b\<rparr> s))
     = ''405 Method Not Allowed'' @ [CHR 0x0A]
   \<and> Header (fst (postHandler env ca NewResponseWriter \<lparr>Method = ''GET'', ReadAll = b\<rparr> s))
       ''Allow'' = Some [''POST'']
   \<and> snd (postHandler env ca NewResponseWriter \<lparr>Method = ''GET'', ReadAll = b\<rparr> s)
     = Infof ''%s method not allowed'' [S ''GET''] s
   \<and> sent (snd (postHandler env ca NewResponseWriter \<lparr>Method = ''GET'', ReadAll = b\<rparr> s))
     = sent s
   \<and> received (snd (postHandler env ca NewResponseWriter \<lparr>Method = ''GET'', ReadAll = b\<rparr> s))
     = received s"
  by (simp add: postHandler_def http_Error_def Header_Set_def Header_Del_def Let_def
      NewResponseWriter_def StatusBadRequest_def StatusMethodNotAllowed_def status_code_def
      loggers received_def)

text \<open>
  Claim C6. A POST request whose body \<^verbatim>\<open>json.Unmarshal\<close> refuses is answered with
  status 400 and the text of the decoding error; the only effect is one line of log:
  no record is handed to \<^verbatim>\<open>postMessage\<close>, the client is not called, the clock is not
  read.
\<close>

theorem C6_undecodable_body_rejected:
  assumes "Method r = ''POST''" and "ReadAll r = Inr body" and "Unmarshal env body = Inl e"
  shows "status_code (fst (postHandler env ca NewResponseWriter r s)) = 400
       \<and> Written (fst (postHandler env ca NewResponseWriter r s)) = err_Error e @ [CHR 0x0A]
       \<and> snd (postHandler env ca NewResponseWriter r s)
           = Infof ''Failed to parse JSON: %s'' [S (err_Error e)] s
       \<and> sent (snd (postHandler env ca NewResponseWriter r s)) = sent s
       \<and> received (snd (postHandler env ca NewResponseWriter r s)) = received s
       \<and> clock (snd (postHandler env ca NewResponseWriter r s)) = clock s"
  using assms
  by (simp add: postHandler_def http_Error_def Header_Set_def Header_Del_def Let_def
      NewResponseWriter_def StatusBadRequest_def loggers received_def status_code_def)

theorem C6_undecodable_body_rejected_witness:
  "Method (post ''not json'') = ''POST'' \<and> ReadAll (post ''not json'') = Inr ''not json''
   \<and> Unmarshal example_env ''not json'' = Inl (errorString ''invalid character'')
   \<and> status_code (fst (postHandler example_env example_adapter NewResponseWriter
        (post ''not json'') empty_world)) = 400
   \<and> Written (fst (postHandler example_env example_adapter NewResponseWriter
        (post ''not json'') empty_world)) = ''invalid character'' @ [CHR 0x0A]
   \<and> sent (snd (postHandler example_env example_adapter NewResponseWriter
        (post ''not json'') empty_world)) = []
   \<and> received (snd (postHandler example_env example_adapter NewResponseWriter
        (post ''not json'') empty_world)) = []"
proof -
  have m: "Method (post ''not json'') = ''POST''" and b: "ReadAll (post ''not json'') = Inr ''not json''"
    by (simp_all add: post_def)
  have u: "Unmarshal example_env ''not json'' = Inl (errorString ''invalid character'')"
    by (simp add: example_env_def)
  have w: "sent empty_world = []" "received empty_world = []"
    by (simp_all add: empty_world_def received_def)
  show ?thesis
    using m b u C6_undecodable_body_rejected[OF m b u, of example_adapter empty_world]
    by (simp add: w loggers received_def empty_world_def)
qed



subsection \<open>Batches that succeed\<close>

text \<open>
  Claim C3. A POST request whose body decodes to a batch is answered with status 200
  and an empty body if and only if every record of the batch is mapped and delivered:
  the sink acknowledges, one after the other, the events of the records of the batch
  (mapping itself never fails). When it does, the client is called exactly once for
  each record, in the order of the batch and with the event of that record, and every
  record was handed to \<^verbatim>\<open>postMessage\<close>, in that order.
\<close>

theorem C3_success_iff_all_delivered:
  assumes "Method r = ''POST''" and "ReadAll r = Inr body" and "Unmarshal env body = Inr nb"
  shows "((status_code (fst (postHandler env ca NewResponseWriter r s)) = 200
           \<and> Written (fst (postHandler env ca NewResponseWriter r s)) = [])
      \<longleftrightarrow> all_acked env (sent s) (expected_calls env ca (Records nb) (clock s)))
     \<and> (all_acked env (sent s) (expected_calls env ca (Records nb) (clock s))
         \<longrightarrow> calls_since s (snd (postHandler env ca NewResponseWriter r s))
               = expected_calls env ca (Records nb) (clock s)
           \<and> length (calls_since s (snd (postHandler env ca NewResponseWriter r s)))
               = length (Records nb)
           \<and> received (snd (postHandler env ca NewResponseWriter r s))
               = received s @ Records nb)"
proof -
  let ?s0 = "Debugf ''%d events found in message'' [D (length (Records nb))] s"
  let ?ro = "range_outcome env ca (Records nb) ?s0"
  let ?acked = "all_acked env (sent s) (expected_calls env ca (Records nb) (clock s))"
  note ph = postHandler_range_outcome[OF assms, of ca NewResponseWriter s]
  have iff: "fst ?ro = None \<longleftrightarrow> ?acked"
    using range_outcome_None_iff[of env ca "Records nb" ?s0] by simp
  show ?thesis
  proof (cases ?acked)
    case True
    then have acked0: "all_acked env (sent ?s0) (expected_calls env ca (Records nb) (clock ?s0))"
      by simp
    note ro = range_outcome_acked[OF acked0]
    from ro have ph': "postHandler env ca NewResponseWriter r s
                      = (Header_Set ''Allow'' ''POST'' NewResponseWriter, snd ?ro)"
      using ph by (simp split: prod.splits)
    from ro have "calls_since s (snd ?ro) = expected_calls env ca (Records nb) (clock s)"
      by (intro calls_since_eq) simp
    with ro True response_None show ?thesis
      by (simp add: ph' length_expected_calls)
  next
    case False
    with iff obtain e where e: "fst ?ro = Some e" by auto
    then have ph': "postHandler env ca NewResponseWriter r s
                      = (http_Error (Header_Set ''Allow'' ''POST'' NewResponseWriter)
                           (err_Error e) StatusBadRequest, snd ?ro)"
      using ph by (simp split: prod.splits)
    from False response_Some[of "err_Error e"] show ?thesis
      by (simp add: ph')
  qed
qed

text \<open>
  A batch of two records, the second with a timestamp that does not parse, and a sink
  that acknowledges both.
\<close>

theorem C3_success_iff_all_delivered_witness:
  "Method (post ''{Records:[a,t]}'') = ''POST''
   \<and> ReadAll (post ''{Records:[a,t]}'') = Inr ''{Records:[a,t]}''
   \<and> Unmarshal example_env ''{Records:[a,t]}''
       = Inr \<lparr>Records = [example_record, record_bad_time]\<rparr>
   \<and> all_acked example_env (sent empty_world)
       (expected_calls example_env example_adapter [example_record, record_bad_time]
          (clock empty_world))
   \<and> status_code (fst (postHandler example_env example_adapter NewResponseWriter
        (post ''{Records:[a,t]}'') empty_world)) = 200
   \<and> Written (fst (postHandler example_env example_adapter NewResponseWriter
        (post ''{Records:[a,t]}'') empty_world)) = []
   \<and> length (calls_since empty_world (snd (postHandler example_env example_adapter
        NewResponseWriter (post ''{Records:[a,t]}'') empty_world))) = 2
   \<and> received (snd (postHandler example_env example_adapter NewResponseWriter
        (post ''{Records:[a,t]}'') empty_world)) = [example_record, record_bad_time]"
proof -
  have m: "Method (post ''{Records:[a,t]}'') = ''POST''"
    and b: "ReadAll (post ''{Records:[a,t]}'') = Inr ''{Records:[a,t]}''"
    by (simp_all add: post_def)
  have u: "Unmarshal example_env ''{Records:[a,t]}''
             = Inr \<lparr>Records = [example_record, record_bad_time]\<rparr>"
    by (simp add: example_env_def)
  have subj: "Subject (envelope example_env example_record k) = ''file.txt''"
    "Subject (envelope example_env record_bad_time k) = ''file.txt''" for k
    by (simp_all add: envelope_def examples)
  have send: "Send example_env h ctx ev = None" if "Subject ev = ''file.txt''" for h ctx ev
    using that by (simp add: example_env_def)
  have acked: "all_acked example_env (sent empty_world)
       (expected_calls example_env example_adapter [example_record, record_bad_time]
          (clock empty_world))"
    by (simp add: send subj IsACK_def del: clock_after.simps)
  have r0: "received empty_world = []" by (simp add: received_def empty_world_def)
  show ?thesis
    using m b u acked C3_success_iff_all_delivered[OF m b u, of example_adapter empty_world]
    by (simp add: r0 length_expected_calls del: expected_calls.simps all_acked.simps)
qed

subsection \<open>Batches that fail\<close>

text \<open>
  Claim C2. Let record \<open>n\<close>, the \<open>k\<close>-th of the batch (\<open>k = length pre + 1\<close>), be the
  first whose \<^verbatim>\<open>postMessage\<close> returns an error, \<open>e\<close>. Then the request is answered with
  status 400 and the text of \<open>e\<close>; the records handed to \<^verbatim>\<open>postMessage\<close> are the first
  \<open>k\<close> of the batch and no other; the client is called exactly \<open>k\<close> times, for the
  first \<open>k\<close> records in their order; and \<open>e\<close> is what the sink answered to the event
  of record \<open>k\<close>.
\<close>

theorem C2_first_failure_stops_batch:
  assumes "Method r = ''POST''" and "ReadAll r = Inr body" and "Unmarshal env body = Inr nb"
    and "Records nb = pre @ n # rest"
    and "fst (range_outcome env ca pre s) = None"
    and "fst (range_outcome env ca (pre @ [n]) s) = Some e"
  shows "status_code (fst (postHandler env ca NewResponseWriter r s)) = 400
       \<and> Written (fst (postHandler env ca NewResponseWriter r s)) = err_Error e @ [CHR 0x0A]
       \<and> received (snd (postHandler env ca NewResponseWriter r s)) = received s @ pre @ [n]
       \<and> length (calls_since s (snd (postHandler env ca NewResponseWriter r s)))
           = Suc (length pre)
       \<and> calls_since s (snd (postHandler env ca NewResponseWriter r s))
           = expected_calls env ca (pre @ [n]) (clock s)
       \<and> Send env (sent s @ expected_calls env ca pre (clock s)) (tag_of ca)
           (envelope env n (clock_after env pre (clock s))) = Some e"
proof -
  let ?s0 = "Debugf ''%d events found in message'' [D (length (Records nb))] s"
  let ?ro = "range_outcome env ca (pre @ n # rest) ?s0"
  have same: "sent ?s0 = sent s" "clock ?s0 = clock s" by simp_all
  from assms(5) range_outcome_log_irrelevant[OF same, of env ca pre]
  have pre0: "fst (range_outcome env ca pre ?s0) = None" by simp
  from assms(6) range_outcome_log_irrelevant[OF same, of env ca "pre @ [n]"]
  have n0: "fst (range_outcome env ca (pre @ [n]) ?s0) = Some e" by simp
  note fa = range_outcome_fail_at(1)[OF pre0 n0, of rest]
    range_outcome_fail_at(2)[OF pre0 n0, of rest] range_outcome_fail_at(3)[OF pre0 n0, of rest]
    range_outcome_fail_at(4)[OF pre0 n0]
  from postHandler_range_outcome[OF assms(1-3), of ca NewResponseWriter s] assms(4) fa(1)
  have ph: "postHandler env ca NewResponseWriter r s
              = (http_Error (Header_Set ''Allow'' ''POST'' NewResponseWriter)
                   (err_Error e) StatusBadRequest, snd ?ro)"
    by (simp split: prod.splits)
  from fa(2) have calls: "calls_since s (snd ?ro) = expected_calls env ca (pre @ [n]) (clock s)"
    by (intro calls_since_eq) simp
  from response_Some[of "err_Error e"] fa(3,4) calls show ?thesis
    by (simp add: ph length_expected_calls)
qed

text \<open>A batch of three records whose second record the sink rejects.\<close>

theorem C2_first_failure_stops_batch_witness:
  "Method (post ''{Records:[a,r,a]}'') = ''POST''
   \<and> ReadAll (post ''{Records:[a,r,a]}'') = Inr ''{Records:[a,r,a]}''
   \<and> Unmarshal example_env ''{Records:[a,r,a]}''
       = Inr \<lparr>Records = [example_record, record_rejected, example_record]\<rparr>
   \<and> Records \<lparr>Records = [example_record, record_rejected, example_record]\<rparr>
       = [example_record] @ record_rejected # [example_record]
   \<and> fst (range_outcome example_env example_adapter [example_record] empty_world) = None
   \<and> fst (range_outcome example_env example_adapter ([example_record] @ [record_rejected])
        empty_world) = Some (errorString ''NACK'')
   \<and> status_code (fst (postHandler example_env example_adapter NewResponseWriter
        (post ''{Records:[a,r,a]}'') empty_world)) = 400
   \<and> Written (fst (postHandler example_env example_adapter NewResponseWriter
        (post ''{Records:[a,r,a]}'') empty_world)) = ''NACK'' @ [CHR 0x0A]
   \<and> received (snd (postHandler example_env example_adapter NewResponseWriter
        (post ''{Records:[a,r,a]}'') empty_world)) = [example_record, record_rejected]
   \<and> length (calls_since empty_world (snd (postHandler example_env example_adapter
        NewResponseWriter (post ''{Records:[a,r,a]}'') empty_world))) = 2"
proof -
  have m: "Method (post ''{Records:[a,r,a]}'') = ''POST''"
    and b: "ReadAll (post ''{Records:[a,r,a]}'') = Inr ''{Records:[a,r,a]}''"
    by (simp_all add: post_def)
  have u: "Unmarshal example_env ''{Records:[a,r,a]}''
             = Inr \<lparr>Records = [example_record, record_rejected, example_record]\<rparr>"
    by (simp add: example_env_def)
  have recs: "Records \<lparr>Records = [example_record, record_rejected, example_record]\<rparr>
                = [example_record] @ record_rejected # [example_record]"
    by simp
  have subj: "Subject (envelope example_env example_record k) = ''file.txt''"
    "Subject (envelope example_env record_rejected k) = ''rejected.txt''" for k
    by (simp_all add: envelope_def examples)
  have send: "Send example_env h ctx ev
                = (if Subject ev = ''rejected.txt'' then Some (errorString ''NACK'') else None)"
    for h ctx ev
    by (simp add: example_env_def)
  have ack: "IsACK example_env None" "\<not> IsACK example_env (Some (errorString ''NACK''))"
    by (simp_all add: IsACK_def example_env_def)
  have pre: "fst (range_outcome example_env example_adapter [example_record] empty_world) = None"
    by (simp add: range_outcome_Cons send subj ack del: range_outcome.simps(2))
  have n: "fst (range_outcome example_env example_adapter ([example_record] @ [record_rejected])
             empty_world) = Some (errorString ''NACK'')"
    by (simp add: range_outcome_Cons send subj ack Let_def del: range_outcome.simps(2))
  have r0: "received empty_world = []" by (simp add: received_def empty_world_def)
  show ?thesis
    using m b u recs pre n
      C2_first_failure_stops_batch[OF m b u recs pre n]
    by (simp add: r0 length_expected_calls del: expected_calls.simps range_outcome.simps)
qed

end
